theory Spec2Isabelle
  imports Main "HOL-Library.Log_Nat"
begin

section \<open>Values and errors of a run\<close>

text \<open>
  The program is one Node.js script. Its numbers are JavaScript numbers: block numbers,
  period indices and counters are integers far below \<open>2 ^ 53\<close>, where the arithmetic of
  doubles is exact, so they are modelled as \<open>int\<close>. A number read out of a decoded JSON
  object may be missing (\<open>undefined\<close>); arithmetic on it gives \<open>NaN\<close>, which is \<open>None\<close> here. Reward and
  stake amounts are \<open>BN\<close> big integers: \<open>int\<close>. A block hash is the string that stands for
  it; the only test the script makes on one is whether it is empty.
\<close>

type_synonym hash = string

type_synonym jsnum = "int option"

definition js_minus :: "jsnum \<Rightarrow> jsnum \<Rightarrow> jsnum" where
  "js_minus a b = (case a of None \<Rightarrow> None | Some x \<Rightarrow> (case b of None \<Rightarrow> None | Some y \<Rightarrow> Some (x - y)))"

definition js_plus :: "jsnum \<Rightarrow> jsnum \<Rightarrow> jsnum" where
  "js_plus a b = (case a of None \<Rightarrow> None | Some x \<Rightarrow> (case b of None \<Rightarrow> None | Some y \<Rightarrow> Some (x + y)))"

definition js_times :: "jsnum \<Rightarrow> jsnum \<Rightarrow> jsnum" where
  "js_times a b = (case a of None \<Rightarrow> None | Some x \<Rightarrow> (case b of None \<Rightarrow> None | Some y \<Rightarrow> Some (x * y)))"

definition js_le :: "jsnum \<Rightarrow> jsnum \<Rightarrow> bool" where
  "js_le a b = (case a of None \<Rightarrow> False | Some x \<Rightarrow> (case b of None \<Rightarrow> False | Some y \<Rightarrow> x \<le> y))"

definition js_gt :: "jsnum \<Rightarrow> jsnum \<Rightarrow> bool" where
  "js_gt a b = (case a of None \<Rightarrow> False | Some x \<Rightarrow> (case b of None \<Rightarrow> False | Some y \<Rightarrow> y < x))"

definition isNaN :: "jsnum \<Rightarrow> bool" where
  "isNaN a = (a = None)"

text \<open>
  Every \<open>throw new Error(...)\<close> of the script is a constructor, named after the message
  it carries. \<open>TypeError\<close> is the error the runtime raises when a method is called on
  \<open>undefined\<close>.
\<close>

datatype error =
    InvalidRewardPeriodIndex
  | InvalidGroupNamespace
  | InvalidAddress
  | NoStakeRecord
  | NotSubscribed int
  | FailedToValidateSubscription
  | ActivePeriodQueryFailed
  | PeriodInFuture
  | PeriodNotFinalized
  | StartBlockSearchFailed
  | NoRewardsCalculatedEventFound
  | IndexerQueryFailed
  | FailedToVerifyProvidedBlock
  | FailedToFindInitialBlock
  | FailedToGetGroupInfo
  | InvalidPeriodBlockCalculation
  | FailedToGetPeriodInfo
  | FailedToGetEligibleRounds
  | FailedToGetVotes
  | FailedToGetSlaThreshold
  | FailedToGetRewards
  | FailedToGetInitialRewards
  | FailedToGetFinalRewards
  | FailedToGetSystemVotingRounds
  | TypeError

section \<open>The chain client\<close>

text \<open>
  The script reads the chain through the polkadot API object \<open>api\<close>. The reads it makes
  are the fields of \<open>client\<close>; the group namespace and the address of the run are fixed,
  so the reads are keyed by block hash and period only. \<open>None\<close> is a read that throws.
\<close>

record event =
  ev_section :: string
  ev_method :: string
  ev_data0 :: "int option"

text \<open>
  The fields are \<open>event.section\<close>, \<open>event.method\<close> and \<open>event.data[0].toNumber()\<close>, the
  last \<open>None\<close> when that expression throws.
\<close>

record period_json =
  index :: jsnum
  firstBlock :: jsnum
  length' :: jsnum

datatype 'a storage = QueryFails | IsNone | IsSome 'a

text \<open>
  A stake record as \<open>toHuman()\<close> shows it: not an object, or the entries of the object in
  the order of \<open>Object.entries\<close>. An entry holds its key as \<open>parseInt\<close> reads it (\<open>None\<close> for
  \<open>NaN\<close>) and its stake as the \<open>BN\<close> constructor reads it (\<open>None\<close> when the constructor, or
  \<open>stake.toString()\<close>, throws).
\<close>

type_synonym stake_entry = "int option \<times> int option"

datatype stake_record = NotAnObject | Entries "stake_entry list"

text \<open>
  The group configuration as \<open>toHuman()\<close> shows it. Of the percentage text (\<open>"60.00%"\<close>)
  the model keeps the number that \<open>parseFloat(slaPercentage.replace("%", ""))\<close> reads from
  it, \<open>None\<close> when that is \<open>NaN\<close>.
\<close>

record group_human =
  namespace :: string
  slaVotingThreshold :: "rat option"

record client =
  activeRewardPeriodInfo :: "period_json option"
  activeRewardPeriodInfo_at :: "hash \<Rightarrow> period_json option"
  getBlockHash :: "jsnum \<Rightarrow> hash option"
  getHeader :: "hash \<Rightarrow> int option"
  events_at :: "hash \<Rightarrow> event list option"
  solutionGroupStakeRecords_at :: "hash \<Rightarrow> stake_record storage"
  systemVotingRound_entriesAt :: "hash \<Rightarrow> int \<Rightarrow> nat option"
  numberOfVotings_at :: "hash \<Rightarrow> int \<Rightarrow> int option"
  numberOfVotingsWithNomination_at :: "hash \<Rightarrow> int \<Rightarrow> int option"
  numberOfOperatorVotingsWithNomination_at :: "hash \<Rightarrow> int \<Rightarrow> int storage"
  voteMetadata_at :: "hash \<Rightarrow> int \<Rightarrow> int option"
  solutionsGroups_at :: "hash \<Rightarrow> group_human option"
  earnedRewards_at :: "hash \<Rightarrow> (int \<times> int) option"

text \<open>
  \<open>systemVotingRound_entriesAt\<close> is the length of the list of entries.
  \<open>solutionsGroups_at\<close> is \<open>None\<close> also when the group is absent (\<open>unwrap()\<close> throws), and
  \<open>earnedRewards_at\<close> is \<open>None\<close> when the read gives no pair of amounts: the query throws,
  or what it returns has no component \<open>[0]\<close>.
\<close>

section \<open>Period information\<close>

record period_info =
  info_index :: int
  info_start :: int
  info_end :: int
  info_length :: jsnum
  info_firstBlock :: int

definition getPeriodInfo :: "client \<Rightarrow> int \<Rightarrow> hash \<Rightarrow> error + period_info" where
  "getPeriodInfo api periodIndex blockHash =
     (case activeRewardPeriodInfo_at api blockHash of
        None \<Rightarrow> Inl FailedToGetPeriodInfo
      | Some currentPeriod \<Rightarrow>
          let periodsBack = js_minus (index currentPeriod) (Some periodIndex);
              periodStartBlock =
                js_minus (firstBlock currentPeriod) (js_times periodsBack (length' currentPeriod));
              periodEndBlock = js_minus (js_plus periodStartBlock (length' currentPeriod)) (Some 1)
          in if isNaN periodStartBlock \<or> isNaN periodEndBlock
             then Inl InvalidPeriodBlockCalculation
             else (case (periodStartBlock, periodEndBlock) of
                     (Some s, Some e) \<Rightarrow>
                       Inr \<lparr>info_index = periodIndex, info_start = s, info_end = e,
                            info_length = length' currentPeriod, info_firstBlock = s\<rparr>
                   | _ \<Rightarrow> Inl InvalidPeriodBlockCalculation))"

section \<open>Reward totals and the period's rewards\<close>

text \<open>
  \<open>initialRewards\<close> is either the pair of \<open>BN\<close> amounts read from the chain or the number
  \<open>0\<close> that \<open>main\<close> assigns when it has no initial block hash. \<open>finalRewards\<close> is always a
  pair. Indexing the number \<open>0\<close> gives \<open>undefined\<close>, and \<open>BN.sub(undefined)\<close> throws.
\<close>

datatype rewards_value = RewardsTuple int int | NumberZero

definition periodRewards :: "rewards_value \<Rightarrow> int \<times> int \<Rightarrow> error + int \<times> int" where
  "periodRewards initialRewards finalRewards =
     (case initialRewards of
        NumberZero \<Rightarrow> Inl TypeError
      | RewardsTuple initialSubscription initialVoting \<Rightarrow>
          Inr (fst finalRewards - initialSubscription, snd finalRewards - initialVoting))"

section \<open>Input validation\<close>

text \<open>
  The constants of \<open>constants.js\<close>, read from the environment. A string that is not set
  is the empty string (the script only tests such a string for truthiness);
  \<open>REWARD_PERIOD_INDEX\<close> is \<open>Number(...)\<close> of its variable, \<open>None\<close> for \<open>NaN\<close>. The two
  strings the script trims are kept as JavaScript has them, a list of UTF-16 code units,
  since \<open>trim()\<close> removes code units beyond the 8 bit characters.
\<close>

type_synonym js_string = "int list"

record config =
  REWARD_PERIOD_INDEX :: jsnum
  GROUP_NAMESPACE :: js_string
  ADDRESS :: js_string
  SPECIFIC_BLOCK_HASH :: string
  INDEXER_URL :: string

text \<open>
  The code units \<open>trim()\<close> removes: the white space of ECMAScript (TAB, VT, FF, the
  byte order mark U+FEFF and the space separators of Unicode) and its line terminators
  (LF, CR, U+2028, U+2029). \<open>isBlank s\<close> is \<open>!s || s.trim() === ""\<close>.
\<close>

definition js_whitespace :: "int list" where
  "js_whitespace =
     [0x0009, 0x000A, 0x000B, 0x000C, 0x000D, 0x0020, 0x00A0, 0x1680,
      0x2000, 0x2001, 0x2002, 0x2003, 0x2004, 0x2005, 0x2006, 0x2007, 0x2008, 0x2009, 0x200A,
      0x2028, 0x2029, 0x202F, 0x205F, 0x3000, 0xFEFF]"

definition isBlank :: "js_string \<Rightarrow> bool" where
  "isBlank s = list_all (\<lambda>c. c \<in> set js_whitespace) s"

text \<open>
  The loop over \<open>Object.entries(stakeRecordHuman)\<close>, with its two variables
  \<open>lastUpdatePeriod\<close> and \<open>stakeValue\<close>. \<open>Inl\<close> is a parse that throws, with the stake value
  held at that moment (the catch block keeps it for the message).
\<close>

fun scanEntries :: "stake_entry list \<Rightarrow> int \<Rightarrow> int \<Rightarrow> int + int \<times> int" where
  "scanEntries [] lastUpdatePeriod stakeValue = Inr (lastUpdatePeriod, stakeValue)"
| "scanEntries ((period, stake) # rest) lastUpdatePeriod stakeValue =
     (if js_gt period (Some lastUpdatePeriod)
      then (case period of
              None \<Rightarrow> scanEntries rest lastUpdatePeriod stakeValue
            | Some periodNum \<Rightarrow>
                (case stake of
                   None \<Rightarrow> Inl stakeValue
                 | Some v \<Rightarrow> scanEntries rest periodNum v))
      else scanEntries rest lastUpdatePeriod stakeValue)"

text \<open>
  Lines 103 to 160 of \<open>validateInput\<close>: the decoded record is scanned from
  \<open>lastUpdatePeriod = 0\<close> and \<open>stakeValue = 0\<close>, then tested. The result is the stake the
  script logs on success.
\<close>

definition checkStakeRecord :: "int \<Rightarrow> stake_record \<Rightarrow> error + int" where
  "checkStakeRecord rewardPeriodIndex stakeRecordHuman =
     (case stakeRecordHuman of
        NotAnObject \<Rightarrow> Inl (NotSubscribed 0)
      | Entries entries \<Rightarrow>
          (case scanEntries entries 0 0 of
             Inl stakeValue \<Rightarrow> Inl (NotSubscribed stakeValue)
           | Inr (lastUpdatePeriod, stakeValue) \<Rightarrow>
               if lastUpdatePeriod \<le> rewardPeriodIndex \<and> 0 < stakeValue
               then Inr stakeValue
               else Inl (NotSubscribed stakeValue)))"

definition validateInput :: "config \<Rightarrow> client \<Rightarrow> error + int" where
  "validateInput cfg api =
     (case REWARD_PERIOD_INDEX cfg of
        None \<Rightarrow> Inl InvalidRewardPeriodIndex
      | Some rewardPeriodIndex \<Rightarrow>
          if rewardPeriodIndex \<le> 0 then Inl InvalidRewardPeriodIndex
          else if isBlank (GROUP_NAMESPACE cfg) then Inl InvalidGroupNamespace
          else if isBlank (ADDRESS cfg) then Inl InvalidAddress
          else (case activeRewardPeriodInfo api of
                  None \<Rightarrow> Inl FailedToValidateSubscription
                | Some currentPeriod \<Rightarrow>
                    let periodsBack = js_minus (index currentPeriod) (Some rewardPeriodIndex);
                        periodStartBlock =
                          js_minus (firstBlock currentPeriod)
                            (js_times periodsBack (length' currentPeriod))
                    in (case getBlockHash api periodStartBlock of
                          None \<Rightarrow> Inl FailedToValidateSubscription
                        | Some periodBlockHash \<Rightarrow>
                            (case solutionGroupStakeRecords_at api periodBlockHash of
                               QueryFails \<Rightarrow> Inl FailedToValidateSubscription
                             | IsNone \<Rightarrow> Inl NoStakeRecord
                             | IsSome stakeRecordHuman \<Rightarrow>
                                 checkStakeRecord rewardPeriodIndex stakeRecordHuman))))"

section \<open>Finding the block of the distribution event\<close>

text \<open>
  The test both event loops make: is there an event of \<open>workerNodePallet\<close> named
  \<open>RewardsCalculatedForPeriod\<close> whose first argument is the period? \<open>None\<close> when reading
  the argument throws before a match is found.
\<close>

fun hasRewardsCalculatedFor :: "event list \<Rightarrow> int \<Rightarrow> bool option" where
  "hasRewardsCalculatedFor [] periodIndex = Some False"
| "hasRewardsCalculatedFor (e # events) periodIndex =
     (if ev_section e = ''workerNodePallet'' \<and> ev_method e = ''RewardsCalculatedForPeriod''
      then (case ev_data0 e of
              None \<Rightarrow> None
            | Some n \<Rightarrow> if n = periodIndex then Some True
                        else hasRewardsCalculatedFor events periodIndex)
      else hasRewardsCalculatedFor events periodIndex)"

text \<open>The body of one iteration of the scan: the hash it returns, if it returns.\<close>

definition rewardsCalculatedAt :: "client \<Rightarrow> int \<Rightarrow> int \<Rightarrow> hash option" where
  "rewardsCalculatedAt api periodIndex blockNumber =
     (case getBlockHash api (Some blockNumber) of
        None \<Rightarrow> None
      | Some blockHash \<Rightarrow>
          (case events_at api blockHash of
             None \<Rightarrow> None
           | Some events \<Rightarrow>
               (case hasRewardsCalculatedFor events periodIndex of
                  Some True \<Rightarrow> Some blockHash
                | _ \<Rightarrow> None)))"

function scanBlocks :: "client \<Rightarrow> int \<Rightarrow> int \<Rightarrow> int \<Rightarrow> hash option" where
  "scanBlocks api periodIndex blockNumber nextPeriodEndBlock =
     (if blockNumber \<le> nextPeriodEndBlock
      then (case rewardsCalculatedAt api periodIndex blockNumber of
              Some blockHash \<Rightarrow> Some blockHash
            | None \<Rightarrow> scanBlocks api periodIndex (blockNumber + 1) nextPeriodEndBlock)
      else None)"
  by pat_completeness auto
termination
  by (relation "measure (\<lambda>(api, periodIndex, blockNumber, nextPeriodEndBlock).
        nat (nextPeriodEndBlock + 1 - blockNumber))") auto

definition findBlockForPeriod :: "client \<Rightarrow> int \<Rightarrow> error + hash" where
  "findBlockForPeriod api periodIndex =
     (case activeRewardPeriodInfo api of
        None \<Rightarrow> Inl ActivePeriodQueryFailed
      | Some currentPeriod \<Rightarrow>
          if js_gt (Some periodIndex) (index currentPeriod) then Inl PeriodInFuture
          else if js_gt (Some (periodIndex + 1)) (index currentPeriod) then Inl PeriodNotFinalized
          else
            let requestedPeriodStartBlock =
                  js_minus (firstBlock currentPeriod)
                    (js_times (js_minus (index currentPeriod) (Some periodIndex))
                       (length' currentPeriod));
                nextPeriodStartBlock = js_plus requestedPeriodStartBlock (length' currentPeriod);
                nextPeriodEndBlock =
                  js_minus (js_plus nextPeriodStartBlock (length' currentPeriod)) (Some 1);
                previousPeriodIndex = periodIndex - 1;
                startBlock =
                  (if 0 \<le> previousPeriodIndex
                   then (case getBlockHash api (js_minus requestedPeriodStartBlock (Some 1)) of
                           None \<Rightarrow> Inl StartBlockSearchFailed
                         | Some previousPeriodEndHash \<Rightarrow>
                             (case systemVotingRound_entriesAt api previousPeriodEndHash
                                     previousPeriodIndex of
                                None \<Rightarrow> Inl StartBlockSearchFailed
                              | Some totalSystemVotingRounds \<Rightarrow>
                                  let startBlock =
                                        js_plus nextPeriodStartBlock
                                          (Some (int totalSystemVotingRounds))
                                  in if js_gt startBlock nextPeriodEndBlock
                                     then Inr nextPeriodStartBlock
                                     else Inr startBlock))
                   else Inr nextPeriodStartBlock)
            in (case startBlock of
                  Inl e \<Rightarrow> Inl e
                | Inr startBlock \<Rightarrow>
                    (case (startBlock, nextPeriodEndBlock) of
                       (Some fromBlock, Some toBlock) \<Rightarrow>
                         (case scanBlocks api periodIndex fromBlock toBlock of
                            Some blockHash \<Rightarrow> Inr blockHash
                          | None \<Rightarrow> Inl NoRewardsCalculatedEventFound)
                     | _ \<Rightarrow> Inl NoRewardsCalculatedEventFound)))"

text \<open>
  The indexer's answer to the one GraphQL query: \<open>None\<close> when \<open>fetch\<close> throws, the status
  is not ok or the answer carries errors; otherwise the block numbers of
  \<open>data.data.events\<close>, newest first (no events when the list is missing).
\<close>

type_synonym indexer_reply = "int list option"

definition queryIndexerForRewardsBlock ::
    "indexer_reply \<Rightarrow> int \<Rightarrow> client \<Rightarrow> error + int option" where
  "queryIndexerForRewardsBlock reply periodIndex api =
     (case reply of
        None \<Rightarrow> Inl IndexerQueryFailed
      | Some events \<Rightarrow>
          if events = [] then Inr None
          else (case activeRewardPeriodInfo api of
                  None \<Rightarrow> Inl IndexerQueryFailed
                | Some currentPeriod \<Rightarrow>
                    let periodLength = length' currentPeriod;
                        periodStartBlock =
                          js_minus (firstBlock currentPeriod)
                            (js_times (js_minus (index currentPeriod) (Some periodIndex))
                               periodLength);
                        nextPeriodStartBlock = js_plus periodStartBlock periodLength;
                        searchStartBlock = nextPeriodStartBlock;
                        searchEndBlock = js_plus searchStartBlock (Some 2000)
                    in Inr (find (\<lambda>blockNumber. js_le searchStartBlock (Some blockNumber)
                                     \<and> js_le (Some blockNumber) searchEndBlock) events)))"

text \<open>
  Step 1 of \<open>main\<close>. Beside the block hash (or the error that ends the run) the model
  returns the strategies the step entered, in order; the script has no such list, it is
  the trace of its branches.
\<close>

datatype strategy = PinnedHash | Indexer | ChainScan

definition findRewardsBlock ::
    "config \<Rightarrow> client \<Rightarrow> indexer_reply \<Rightarrow> int \<Rightarrow> strategy list \<times> (error + hash)" where
  "findRewardsBlock cfg api reply rewardPeriodIndex =
     (if SPECIFIC_BLOCK_HASH cfg \<noteq> []
      then ([PinnedHash],
            (case events_at api (SPECIFIC_BLOCK_HASH cfg) of
               None \<Rightarrow> Inl FailedToVerifyProvidedBlock
             | Some events \<Rightarrow>
                 (case hasRewardsCalculatedFor events rewardPeriodIndex of
                    Some True \<Rightarrow> Inr (SPECIFIC_BLOCK_HASH cfg)
                  | _ \<Rightarrow> Inl FailedToVerifyProvidedBlock)))
      else if INDEXER_URL cfg \<noteq> []
      then (case (case queryIndexerForRewardsBlock reply rewardPeriodIndex api of
                    Inl e \<Rightarrow> None
                  | Inr None \<Rightarrow> None
                  | Inr (Some indexerBlockNumber) \<Rightarrow>
                      if indexerBlockNumber \<noteq> 0
                      then getBlockHash api (Some indexerBlockNumber)
                      else None) of
              Some blockHash \<Rightarrow> ([Indexer], Inr blockHash)
            | None \<Rightarrow> ([Indexer, ChainScan], findBlockForPeriod api rewardPeriodIndex))
      else ([ChainScan], findBlockForPeriod api rewardPeriodIndex))"

section \<open>Finding the block of the initial state\<close>

definition searchRange :: int where
  "searchRange = 50"

definition hasEarnedRewardCalculated :: "event list \<Rightarrow> bool" where
  "hasEarnedRewardCalculated events = list_ex (\<lambda>e. ev_method e = ''EarnedRewardCalculated'') events"

text \<open>
  The backward loop of \<open>findBlockBeforeRewardsCalculated\<close>, from offset \<open>i\<close> on. It returns
  the two variables \<open>initialBlockHash\<close> and \<open>lastBlockWithEvent\<close> as the loop leaves them
  (\<open>None\<close> for \<open>null\<close>).
\<close>

function walkBack ::
    "client \<Rightarrow> int \<Rightarrow> int \<Rightarrow> hash option \<Rightarrow> hash option \<times> hash option" where
  "walkBack api blockNumber i lastBlockWithEvent =
     (if i \<le> searchRange
      then if blockNumber - i < 0 then (None, lastBlockWithEvent)
           else (case getBlockHash api (Some (blockNumber - i)) of
                   None \<Rightarrow> walkBack api blockNumber (i + 1) lastBlockWithEvent
                 | Some checkBlockHash \<Rightarrow>
                     (case events_at api checkBlockHash of
                        None \<Rightarrow> walkBack api blockNumber (i + 1) lastBlockWithEvent
                      | Some events \<Rightarrow>
                          if hasEarnedRewardCalculated events
                          then walkBack api blockNumber (i + 1) (Some checkBlockHash)
                          else (Some checkBlockHash, lastBlockWithEvent)))
      else (None, lastBlockWithEvent))"
  by pat_completeness auto
termination
  by (relation "measure (\<lambda>(api, blockNumber, i, lastBlockWithEvent). nat (searchRange + 1 - i))")
     auto

definition findBlockBeforeRewardsCalculated :: "client \<Rightarrow> hash \<Rightarrow> error + hash" where
  "findBlockBeforeRewardsCalculated api rewardsCalculatedBlockHash =
     (case getHeader api rewardsCalculatedBlockHash of
        None \<Rightarrow> Inl FailedToFindInitialBlock
      | Some blockNumber \<Rightarrow>
          (case walkBack api blockNumber 1 None of
             (Some initialBlockHash, lastBlockWithEvent) \<Rightarrow> Inr initialBlockHash
           | (None, Some lastBlockWithEvent) \<Rightarrow> Inr lastBlockWithEvent
           | (None, None) \<Rightarrow>
               (case getBlockHash api (Some (blockNumber - 1)) of
                  None \<Rightarrow> Inl FailedToFindInitialBlock
                | Some blockBeforeHash \<Rightarrow> Inr blockBeforeHash)))"

text \<open>
  Two readings of a block, used to state what the loop finds. \<open>readBlock\<close> is what one
  iteration reads inside its \<open>try\<close>: the hash of block \<open>n\<close> and its events, or nothing
  when either read throws. A block is \<open>notPristine\<close> when the loop walks past it: it
  could not be read, or its events hold an \<open>EarnedRewardCalculated\<close>.
\<close>

definition readBlock :: "client \<Rightarrow> int \<Rightarrow> (hash \<times> event list) option" where
  "readBlock api n =
     (case getBlockHash api (Some n) of
        None \<Rightarrow> None
      | Some h \<Rightarrow> (case events_at api h of None \<Rightarrow> None | Some events \<Rightarrow> Some (h, events)))"

definition notPristine :: "client \<Rightarrow> int \<Rightarrow> bool" where
  "notPristine api n =
     (case readBlock api n of
        None \<Rightarrow> True
      | Some (h, events) \<Rightarrow> hasEarnedRewardCalculated events)"

section \<open>Reading the state at a block\<close>

definition getEligibleRounds :: "client \<Rightarrow> int \<Rightarrow> hash \<Rightarrow> error + int" where
  "getEligibleRounds api period blockHash =
     (case numberOfVotings_at api blockHash period of
        None \<Rightarrow> Inl FailedToGetEligibleRounds
      | Some totalVotings \<Rightarrow>
          (case numberOfVotingsWithNomination_at api blockHash period of
             None \<Rightarrow> Inl FailedToGetEligibleRounds
           | Some totalVotingsWithNomination \<Rightarrow>
               let operatorVotingsWithNomination =
                     (case numberOfOperatorVotingsWithNomination_at api blockHash period of
                        IsSome n \<Rightarrow> n
                      | _ \<Rightarrow> 0)
               in Inr (totalVotings
                        - (totalVotingsWithNomination - operatorVotingsWithNomination))))"

definition getVotesForAddress :: "client \<Rightarrow> int \<Rightarrow> hash \<Rightarrow> error + int" where
  "getVotesForAddress api period blockHash =
     (case voteMetadata_at api blockHash period of
        None \<Rightarrow> Inl FailedToGetVotes
      | Some votes \<Rightarrow> Inr votes)"

definition getSlaThreshold :: "client \<Rightarrow> hash \<Rightarrow> error + rat option" where
  "getSlaThreshold api blockHash =
     (case solutionsGroups_at api blockHash of
        None \<Rightarrow> Inl FailedToGetSlaThreshold
      | Some groupConfig \<Rightarrow> Inr (slaVotingThreshold groupConfig))"

definition getRewardsForAddress :: "client \<Rightarrow> hash \<Rightarrow> error + int \<times> int" where
  "getRewardsForAddress api blockHash =
     (case earnedRewards_at api blockHash of
        None \<Rightarrow> Inl FailedToGetRewards
      | Some earnedRewards \<Rightarrow> Inr earnedRewards)"

definition getGroupInfo :: "client \<Rightarrow> hash \<Rightarrow> error + group_human" where
  "getGroupInfo api blockHash =
     (case solutionsGroups_at api blockHash of
        None \<Rightarrow> Inl FailedToGetGroupInfo
      | Some groupConfig \<Rightarrow> Inr groupConfig)"

definition getAllGroupsSystemVotingRoundsCount :: "client \<Rightarrow> int \<Rightarrow> hash \<Rightarrow> error + nat" where
  "getAllGroupsSystemVotingRoundsCount api periodIndex blockHash =
     (case getPeriodInfo api periodIndex blockHash of
        Inl e \<Rightarrow> Inl FailedToGetSystemVotingRounds
      | Inr periodInfo \<Rightarrow>
          (case getBlockHash api (Some (info_end periodInfo)) of
             None \<Rightarrow> Inl FailedToGetSystemVotingRounds
           | Some lastBlockHash \<Rightarrow>
               (case systemVotingRound_entriesAt api lastBlockHash periodIndex of
                  None \<Rightarrow> Inl FailedToGetSystemVotingRounds
                | Some count \<Rightarrow> Inr count)))"

text \<open>
  Step 4 of \<open>main\<close>, \<open>Querying historical state\<close>: the five variables it fills. Three reads
  are made at \<open>initialBlockHash || blockHash\<close>; the initial rewards are read only when
  \<open>initialBlockHash\<close> is truthy and are the number \<open>0\<close> otherwise.
\<close>

record snapshot =
  eligibleRounds :: int
  votes :: int
  slaPercentage :: "rat option"
  initialRewards :: rewards_value
  finalRewards :: "int \<times> int"

definition queryHistoricalState :: "client \<Rightarrow> int \<Rightarrow> hash \<Rightarrow> hash \<Rightarrow> error + snapshot" where
  "queryHistoricalState api rewardPeriodIndex initialBlockHash blockHash =
     (let stateHash = (if initialBlockHash \<noteq> [] then initialBlockHash else blockHash) in
      case getEligibleRounds api rewardPeriodIndex stateHash of
        Inl e \<Rightarrow> Inl FailedToGetEligibleRounds
      | Inr eligible \<Rightarrow>
     (case getVotesForAddress api rewardPeriodIndex stateHash of
        Inl e \<Rightarrow> Inl FailedToGetVotes
      | Inr voted \<Rightarrow>
     (case getSlaThreshold api stateHash of
        Inl e \<Rightarrow> Inl FailedToGetSlaThreshold
      | Inr sla \<Rightarrow>
     (case (if initialBlockHash \<noteq> []
            then (case getRewardsForAddress api initialBlockHash of
                    Inl e \<Rightarrow> Inl FailedToGetInitialRewards
                  | Inr (subscription, voting) \<Rightarrow> Inr (RewardsTuple subscription voting))
            else Inr NumberZero) of
        Inl e \<Rightarrow> Inl e
      | Inr initial \<Rightarrow>
     (case getRewardsForAddress api blockHash of
        Inl e \<Rightarrow> Inl FailedToGetFinalRewards
      | Inr final \<Rightarrow>
          Inr \<lparr>eligibleRounds = eligible, votes = voted, slaPercentage = sla,
               initialRewards = initial, finalRewards = final\<rparr>)))))"

section \<open>The SLA check\<close>

text \<open>
  \<open>votes / eligibleRounds\<close> and the product with \<open>100\<close> are operations on doubles: each is
  the exact result rounded to the nearest number with a 53 bit significand, ties to the
  even significand. \<open>float_exponent x\<close> is the \<open>e\<close> with \<open>2 ^ e \<le> x < 2 ^ (e + 1)\<close>, for a
  positive \<open>x\<close>. Both operands are integers below \<open>2 ^ 53\<close> in magnitude, so no result
  leaves the range of the normal doubles, and the exponent needs no bound.
\<close>

definition float_exponent :: "rat \<Rightarrow> int" where
  "float_exponent x =
     (let (p, q) = quotient_of x; e = bitlen p - bitlen q
      in if x < 2 powi e then e - 1 else e)"

definition roundDouble :: "rat \<Rightarrow> rat" where
  "roundDouble x =
     (if x = 0 then 0
      else
        let e = float_exponent \<bar>x\<bar> - 52;
            m = \<bar>x\<bar> / 2 powi e;
            n = \<lfloor>m\<rfloor>;
            r = m - of_int n;
            n' = (if r < 1 / 2 then n else if 1 / 2 < r then n + 1
                  else if even n then n else n + 1)
        in sgn x * of_int n' * 2 powi e)"

text \<open>
  \<open>Step 4: derive SLA check\<close>. The test \<open>if (eligibleRounds && ...)\<close> holds when
  \<open>eligibleRounds\<close> is not \<open>0\<close>; otherwise \<open>voteRatio\<close> and \<open>meetsSla\<close> stay \<open>null\<close>. A
  comparison with a threshold that is \<open>NaN\<close> is false.
\<close>

definition deriveSlaCheck :: "int \<Rightarrow> int \<Rightarrow> rat option \<Rightarrow> rat option \<times> bool option" where
  "deriveSlaCheck eligible voted sla =
     (if eligible \<noteq> 0
      then let voteRatio = roundDouble (roundDouble (of_int voted / of_int eligible) * 100);
               meetsSla = (case sla of
                             None \<Rightarrow> False
                           | Some slaThresholdNumber \<Rightarrow> slaThresholdNumber \<le> voteRatio)
           in (Some voteRatio, Some meetsSla)
      else (None, None))"

text \<open>
  The two report lines. \<open>toFixed2\<close> is \<open>voteRatio.toFixed(2)\<close>: whether a minus sign is
  printed, and the digits as a count of hundredths (the nearest one, the larger of two
  nearest).
\<close>

definition toFixed2 :: "rat \<Rightarrow> bool \<times> int" where
  "toFixed2 x = (x < 0, \<lfloor>\<bar>x\<bar> * 100 + 1 / 2\<rfloor>)"

datatype ratio_line = VoteRatioFixed "bool \<times> int" | VoteRatioNA

datatype sla_line = MeetsSlaYes | MeetsSlaNo | MeetsSlaNA

definition voteRatioLine :: "rat option \<Rightarrow> ratio_line" where
  "voteRatioLine voteRatio =
     (case voteRatio of None \<Rightarrow> VoteRatioNA | Some r \<Rightarrow> VoteRatioFixed (toFixed2 r))"

definition meetsSlaLine :: "rat option \<Rightarrow> bool option \<Rightarrow> sla_line" where
  "meetsSlaLine voteRatio meetsSla =
     (case voteRatio of
        None \<Rightarrow> MeetsSlaNA
      | Some r \<Rightarrow> if meetsSla = Some True then MeetsSlaYes else MeetsSlaNo)"

section \<open>The run\<close>

text \<open>
  What the report prints, the conversion of the amounts to EWT left out. \<open>analyse\<close> is
  the part of \<open>main\<close> after the reads: the period's rewards, the SLA check and the
  report. An error is what the outer \<open>catch\<close> of \<open>main\<close> prints in place of the report.
\<close>

record report =
  report_periodInfo :: period_info
  report_groupInfo :: group_human
  report_eligibleRounds :: int
  report_votes :: int
  report_slaPercentage :: "rat option"
  report_voteRatio :: ratio_line
  report_meetsSla :: sla_line
  report_initialRewards :: rewards_value
  report_finalRewards :: "int \<times> int"
  report_periodRewards :: "int \<times> int"

definition analyse :: "period_info \<Rightarrow> group_human \<Rightarrow> snapshot \<Rightarrow> error + report" where
  "analyse periodInfo groupInfo s =
     (case periodRewards (initialRewards s) (finalRewards s) of
        Inl e \<Rightarrow> Inl e
      | Inr rewards \<Rightarrow>
          (case deriveSlaCheck (eligibleRounds s) (votes s) (slaPercentage s) of
             (voteRatio, meetsSla) \<Rightarrow>
               Inr \<lparr>report_periodInfo = periodInfo, report_groupInfo = groupInfo,
                    report_eligibleRounds = eligibleRounds s, report_votes = votes s,
                    report_slaPercentage = slaPercentage s,
                    report_voteRatio = voteRatioLine voteRatio,
                    report_meetsSla = meetsSlaLine voteRatio meetsSla,
                    report_initialRewards = initialRewards s,
                    report_finalRewards = finalRewards s,
                    report_periodRewards = rewards\<rparr>))"

definition main :: "config \<Rightarrow> client \<Rightarrow> indexer_reply \<Rightarrow> error + report" where
  "main cfg api reply =
     (case validateInput cfg api of
        Inl e \<Rightarrow> Inl e
      | Inr stake \<Rightarrow>
     (case REWARD_PERIOD_INDEX cfg of
        None \<Rightarrow> Inl InvalidRewardPeriodIndex
      | Some rewardPeriodIndex \<Rightarrow>
     (case snd (findRewardsBlock cfg api reply rewardPeriodIndex) of
        Inl e \<Rightarrow> Inl e
      | Inr blockHash \<Rightarrow>
     (case getGroupInfo api blockHash of
        Inl e \<Rightarrow> Inl FailedToGetGroupInfo
      | Inr groupInfo \<Rightarrow>
     (case getPeriodInfo api rewardPeriodIndex blockHash of
        Inl e \<Rightarrow> Inl e
      | Inr periodInfo \<Rightarrow>
     (case findBlockBeforeRewardsCalculated api blockHash of
        Inl e \<Rightarrow> Inl FailedToFindInitialBlock
      | Inr initialBlockHash \<Rightarrow>
     (case queryHistoricalState api rewardPeriodIndex initialBlockHash blockHash of
        Inl e \<Rightarrow> Inl e
      | Inr s \<Rightarrow>
     (case getAllGroupsSystemVotingRoundsCount api rewardPeriodIndex blockHash of
        Inl e \<Rightarrow> Inl FailedToGetSystemVotingRounds
      | Inr allGroupsSystemVotingRounds \<Rightarrow> analyse periodInfo groupInfo s))))))))"

section \<open>A small chain\<close>

text \<open>
  A chain to run the definitions on. Periods are 10 blocks long and period \<open>k\<close> starts at
  block \<open>10 * k\<close>; the active period is 7. The rewards of period 5 are calculated in block
  65; blocks 63 to 65 carry \<open>EarnedRewardCalculated\<close> events and block 62 is the last one
  without. Period 4 had three system voting rounds. The address staked 100 in period 5,
  voted 61 times in 49 eligible rounds, and its totals are those of the README's report.
\<close>

definition demo_hashes :: "(int \<times> hash) list" where
  "demo_hashes =
     [(49, ''0x49''), (50, ''0x50''), (59, ''0x59''), (60, ''0x60''), (61, ''0x61''),
      (62, ''0x62''), (63, ''0x63''), (64, ''0x64''), (65, ''0x65''), (66, ''0x66'')]"

definition demo_earned :: event where
  "demo_earned =
     \<lparr>ev_section = ''workerNodePallet'', ev_method = ''EarnedRewardCalculated'', ev_data0 = None\<rparr>"

definition demo_calculated :: event where
  "demo_calculated =
     \<lparr>ev_section = ''workerNodePallet'', ev_method = ''RewardsCalculatedForPeriod'',
      ev_data0 = Some 5\<rparr>"

definition demo_events :: "hash \<Rightarrow> event list option" where
  "demo_events h =
     (if h = ''0x65'' then Some [demo_earned, demo_calculated]
      else if h = ''0x64'' \<or> h = ''0x63'' then Some [demo_earned]
      else if h \<in> set (map snd demo_hashes) then Some []
      else None)"

definition demo_period :: period_json where
  "demo_period = \<lparr>index = Some 7, firstBlock = Some 70, length' = Some 10\<rparr>"

definition demo_group :: group_human where
  "demo_group = \<lparr>namespace = ''smartflow.v2'', slaVotingThreshold = Some 60\<rparr>"

definition demo_client :: client where
  "demo_client =
     \<lparr>activeRewardPeriodInfo = Some demo_period,
      activeRewardPeriodInfo_at = (\<lambda>h. Some demo_period),
      getBlockHash = (\<lambda>n. case n of None \<Rightarrow> None | Some k \<Rightarrow> map_of demo_hashes k),
      getHeader = (\<lambda>h. map_of (map (\<lambda>(k, x). (x, k)) demo_hashes) h),
      events_at = demo_events,
      solutionGroupStakeRecords_at = (\<lambda>h. IsSome (Entries [(Some 5, Some 100)])),
      systemVotingRound_entriesAt = (\<lambda>h p. Some 3),
      numberOfVotings_at = (\<lambda>h p. Some 49),
      numberOfVotingsWithNomination_at = (\<lambda>h p. Some 0),
      numberOfOperatorVotingsWithNomination_at = (\<lambda>h p. IsNone),
      voteMetadata_at = (\<lambda>h p. Some 61),
      solutionsGroups_at = (\<lambda>h. Some demo_group),
      earnedRewards_at =
        (\<lambda>h. if h = ''0x65'' then Some (8206437276591532332, 31834395275802910556)
             else Some (7982644892450463358, 30299138028873089534))\<rparr>"

definition demo_config :: config where
  "demo_config =
     \<lparr>REWARD_PERIOD_INDEX = Some 5, GROUP_NAMESPACE = map of_char ''smartflow.v2'',
      ADDRESS = map of_char ''5D2csUmBkLadib8ZM2guw28tXs2nMMAGS4K9RK9ApRdb6F6R'',
      SPECIFIC_BLOCK_HASH = [], INDEXER_URL = []\<rparr>"

text \<open>
  Variations of the chain: period information that puts period 1 below block 0; every
  readable block carrying an \<open>EarnedRewardCalculated\<close> event; a node that has pruned
  the state of every block but 65, so that neither events nor rewards can be read before
  it; a node whose header of the distribution block carries the number 0; an address
  with 29 votes in 100 eligible rounds in a group whose threshold is 29.00%; and a period
  without voting rounds.
\<close>

definition demo_malformed :: client where
  "demo_malformed =
     demo_client\<lparr>activeRewardPeriodInfo_at :=
       (\<lambda>h. Some \<lparr>index = Some 7, firstBlock = Some 20, length' = Some 10\<rparr>)\<rparr>"

definition demo_busy :: client where
  "demo_busy = demo_client\<lparr>events_at := (\<lambda>h. Some [demo_earned])\<rparr>"

definition demo_pruned :: client where
  "demo_pruned =
     demo_client\<lparr>events_at := (\<lambda>h. if h = ''0x65'' then demo_events h else None),
       earnedRewards_at :=
         (\<lambda>h. if h = ''0x65'' then Some (8206437276591532332, 31834395275802910556)
              else None)\<rparr>"

definition demo_genesis :: client where
  "demo_genesis = demo_client\<lparr>getHeader := (\<lambda>h. Some 0)\<rparr>"


definition demo_idle :: client where
  "demo_idle = demo_client\<lparr>numberOfVotings_at := (\<lambda>h p. Some 0)\<rparr>"

definition demo_snapshot :: snapshot where
  "demo_snapshot =
     \<lparr>eligibleRounds = 49, votes = 61, slaPercentage = Some 60,
      initialRewards = RewardsTuple 7982644892450463358 30299138028873089534,
      finalRewards = (8206437276591532332, 31834395275802910556)\<rparr>"

definition demo_idle_snapshot :: snapshot where
  "demo_idle_snapshot = demo_snapshot\<lparr>eligibleRounds := 0\<rparr>"

definition demo_period_info :: period_info where
  "demo_period_info =
     \<lparr>info_index = 5, info_start = 50, info_end = 59, info_length = Some 10,
      info_firstBlock = 50\<rparr>"

definition demo_pinned :: config where
  "demo_pinned =
     demo_config\<lparr>SPECIFIC_BLOCK_HASH := ''0x64'', INDEXER_URL := ''https://indexer''\<rparr>"

definition demo_indexed :: config where
  "demo_indexed = demo_config\<lparr>INDEXER_URL := ''https://indexer''\<rparr>"

section \<open>Properties\<close>

subsection \<open>The period's rewards\<close>

text \<open>
  Claim C1. For every pair of reward totals read from the chain, the period's rewards are
  the exact differences final minus initial, subscription and voting separately, over the
  unbounded integers: nothing is clamped, so a final total below the initial one gives a
  negative amount. On the totals of the README's report the result is
  (223792384141068974, 1535257246929821022).
\<close>

theorem periodRewards_difference:
  "periodRewards (RewardsTuple initialSubscription initialVoting) (finalSubscription, finalVoting)
     = Inr (finalSubscription - initialSubscription, finalVoting - initialVoting)
   \<and> periodRewards (RewardsTuple 7982644892450463358 30299138028873089534)
        (8206437276591532332, 31834395275802910556)
      = Inr (223792384141068974, 1535257246929821022)
   \<and> periodRewards (RewardsTuple 5 0) (3, 0) = Inr (- 2, 0)"
  by (simp add: periodRewards_def)

subsection \<open>Period bounds\<close>

lemma getPeriodInfo_numeric:
  assumes "activeRewardPeriodInfo_at api blockHash =
             Some \<lparr>index = Some ci, firstBlock = Some fb, length' = Some len\<rparr>"
  shows "getPeriodInfo api t blockHash =
           Inr \<lparr>info_index = t, info_start = fb - (ci - t) * len,
                info_end = fb - (ci - t) * len + len - 1,
                info_length = Some len, info_firstBlock = fb - (ci - t) * len\<rparr>"
  using assms
  by (simp add: getPeriodInfo_def js_minus_def js_plus_def js_times_def isNaN_def)

lemma getPeriodInfo_NaN_iff:
  assumes "activeRewardPeriodInfo_at api blockHash = Some cur"
  shows "(getPeriodInfo api t blockHash = Inl InvalidPeriodBlockCalculation)
           = (index cur = None \<or> firstBlock cur = None \<or> length' cur = None)"
  using assms
  by (auto simp: getPeriodInfo_def js_minus_def js_plus_def js_times_def isNaN_def Let_def
           split: option.splits)

lemma demo_malformed_period:
  "activeRewardPeriodInfo_at demo_malformed ''0x65''
     = Some \<lparr>index = Some 7, firstBlock = Some 20, length' = Some 10\<rparr>"
  by (simp add: demo_malformed_def)



text \<open>
  Claim C7, as the code has it. The only bounds \<open>getPeriodInfo\<close> rejects are those that
  are \<open>NaN\<close>, which happens exactly when a field of the descriptor is not a number. For
  a descriptor of numbers it returns the bounds whatever their sign.
\<close>

theorem getPeriodInfo_rejects_NaN_only:
  "(activeRewardPeriodInfo_at api blockHash = Some cur \<longrightarrow>
      (getPeriodInfo api t blockHash = Inl InvalidPeriodBlockCalculation)
        = (index cur = None \<or> firstBlock cur = None \<or> length' cur = None))
   \<and> (activeRewardPeriodInfo_at api blockHash
         = Some \<lparr>index = Some ci, firstBlock = Some fb, length' = Some len\<rparr> \<longrightarrow>
       getPeriodInfo api t blockHash =
         Inr \<lparr>info_index = t, info_start = fb - (ci - t) * len,
              info_end = fb - (ci - t) * len + len - 1,
              info_length = Some len, info_firstBlock = fb - (ci - t) * len\<rparr>)"
  by (simp add: getPeriodInfo_NaN_iff getPeriodInfo_numeric)

theorem getPeriodInfo_rejects_NaN_only_witness:
  "activeRewardPeriodInfo_at demo_malformed ''0x65''
     = Some \<lparr>index = Some 7, firstBlock = Some 20, length' = Some 10\<rparr>
   \<and> getPeriodInfo demo_malformed 1 ''0x65'' \<noteq> Inl InvalidPeriodBlockCalculation
   \<and> getPeriodInfo demo_malformed 1 ''0x65''
       = Inr \<lparr>info_index = 1, info_start = - 40, info_end = - 31, info_length = Some 10,
              info_firstBlock = - 40\<rparr>
   \<and> getPeriodInfo
         (demo_client\<lparr>activeRewardPeriodInfo_at :=
            (\<lambda>h. Some \<lparr>index = Some 7, firstBlock = Some 70, length' = None\<rparr>)\<rparr>) 5 ''0x65''
       = Inl InvalidPeriodBlockCalculation"
proof -
  note d = demo_malformed_period
  have n: "activeRewardPeriodInfo_at
             (demo_client\<lparr>activeRewardPeriodInfo_at :=
                (\<lambda>h. Some \<lparr>index = Some 7, firstBlock = Some 70, length' = None\<rparr>)\<rparr>) ''0x65''
             = Some \<lparr>index = Some 7, firstBlock = Some 70, length' = None\<rparr>"
    by simp
  note T = getPeriodInfo_rejects_NaN_only
  have a: "getPeriodInfo demo_malformed 1 ''0x65'' \<noteq> Inl InvalidPeriodBlockCalculation"
    using T [of demo_malformed "''0x65''" _ 1, THEN conjunct1] d by simp
  have b: "getPeriodInfo demo_malformed 1 ''0x65''
       = Inr \<lparr>info_index = 1, info_start = - 40, info_end = - 31, info_length = Some 10,
              info_firstBlock = - 40\<rparr>"
    using T [of demo_malformed "''0x65''" _ 1 7 20 10, THEN conjunct2] d by simp
  have c: "getPeriodInfo
         (demo_client\<lparr>activeRewardPeriodInfo_at :=
            (\<lambda>h. Some \<lparr>index = Some 7, firstBlock = Some 70, length' = None\<rparr>)\<rparr>) 5 ''0x65''
       = Inl InvalidPeriodBlockCalculation"
    using T [of _ "''0x65''" _ 5, THEN conjunct1] n by simp
  from a b c d show ?thesis by simp
qed

text \<open>
  Claim C7 as stated fails: with the active period 7 starting at block 20 and periods of
  10 blocks, period 1 would start at block -40 and end at block -31, and \<open>getPeriodInfo\<close>
  returns these bounds.
\<close>

theorem getPeriodInfo_negative_returned:
  "getPeriodInfo demo_malformed 1 ''0x65'' =
     Inr \<lparr>info_index = 1, info_start = - 40, info_end = - 31, info_length = Some 10,
          info_firstBlock = - 40\<rparr>"
  by (simp add: getPeriodInfo_def demo_malformed_def demo_client_def js_minus_def js_plus_def
        js_times_def isNaN_def)

subsection \<open>Subscription\<close>

text \<open>
  Where the check agrees with the rule "valid when the target is at least the maximal
  key and the stake at that key is positive": on every record with distinct keys whose
  maximal key is positive. The one-entry records \<open>{5: 100}\<close> and \<open>{5: 0}\<close> are instances.
\<close>

lemma scanEntries_below:
  assumes "\<forall>(k', s') \<in> set es. k' \<le> l"
  shows "scanEntries (map (\<lambda>(k, s). (Some k, Some s)) es) l v = Inr (l, v)"
  using assms by (induction es) (auto simp: js_gt_def)

lemma scanEntries_max:
  assumes "distinct (map fst es)" "(k, s) \<in> set es" "\<forall>(k', s') \<in> set es. k' \<le> k" "l < k"
  shows "scanEntries (map (\<lambda>(k, s). (Some k, Some s)) es) l v = Inr (k, s)"
  using assms
proof (induction es arbitrary: l v)
  case Nil
  then show ?case by simp
next
  case (Cons e es)
  obtain k1 s1 where e: "e = (k1, s1)" by (cases e)
  show ?case
  proof (cases "k1 = k")
    case True
    with Cons.prems e have s1: "s1 = s"
      by (auto simp: image_iff)
    from Cons.prems e True have "\<forall>(k', s') \<in> set es. k' \<le> k" by auto
    then have "scanEntries (map (\<lambda>(k, s). (Some k, Some s)) es) k s = Inr (k, s)"
      by (rule scanEntries_below)
    with True s1 e Cons.prems(4) show ?thesis by (simp add: js_gt_def)
  next
    case False
    with Cons.prems e have mem: "(k, s) \<in> set es" and lt: "k1 < k" by auto
    from Cons.prems have d: "distinct (map fst es)" and mx: "\<forall>(k', s') \<in> set es. k' \<le> k"
      by auto
    have IH: "scanEntries (map (\<lambda>(k, s). (Some k, Some s)) es) l' v' = Inr (k, s)"
      if "l' < k" for l' v'
      using Cons.IH [OF d mem mx that] .
    show ?thesis
      using e lt Cons.prems(4) IH by (simp add: js_gt_def)
  qed
qed

lemma checkStakeRecord_positive_max_key:
  assumes "distinct (map fst es)" "(k, s) \<in> set es" "\<forall>(k', s') \<in> set es. k' \<le> k" "0 < k"
  shows "checkStakeRecord t (Entries (map (\<lambda>(k, s). (Some k, Some s)) es))
           = (if k \<le> t \<and> 0 < s then Inr s else Inl (NotSubscribed s))"
  using scanEntries_max [OF assms, of 0] by (simp add: checkStakeRecord_def)

lemma checkStakeRecord_single:
  "0 < k \<Longrightarrow> checkStakeRecord t (Entries [(Some k, Some stake)])
     = (if k \<le> t \<and> 0 < stake then Inr stake else Inl (NotSubscribed stake))"
  using checkStakeRecord_positive_max_key [of "[(k, stake)]" k stake t] by simp

lemma checkStakeRecord_spec_examples:
  "5 \<le> t \<Longrightarrow> checkStakeRecord t (Entries [(Some 5, Some 100)]) = Inr 100"
  "t < 5 \<Longrightarrow> checkStakeRecord t (Entries [(Some 5, Some 100)]) = Inl (NotSubscribed 100)"
  "checkStakeRecord t (Entries [(Some 5, Some 0)]) = Inl (NotSubscribed 0)"
  by (simp_all add: checkStakeRecord_single)

text \<open>
  Claim C4, where the code departs from it. The record whose only entry is a stake of
  100 last updated in period 0 has maximal key 0 and a positive stake there, so every
  period from 0 on should be valid; the scan never takes the entry, and both the check
  and the whole of \<open>validateInput\<close> reject period 5 with a stake of 0.
\<close>

theorem checkStakeRecord_period_zero_rejected:
  "checkStakeRecord 5 (Entries [(Some 0, Some 100)]) = Inl (NotSubscribed 0)
   \<and> validateInput demo_config
        (demo_client\<lparr>solutionGroupStakeRecords_at :=
           (\<lambda>h. IsSome (Entries [(Some 0, Some 100)]))\<rparr>)
      = Inl (NotSubscribed 0)"
  by code_simp

text \<open>
  Claim C10. A stake record whose only entry has key 0 is rejected as not subscribed for
  every target period and every stake: the scan compares the key with an accumulator
  that starts at 0, strictly, so it ends with the period 0 and the stake 0 it started
  from.
\<close>

theorem period_zero_entry_always_rejected:
  "scanEntries [(Some 0, Some stake)] 0 0 = Inr (0, 0)
   \<and> checkStakeRecord targetIndex (Entries [(Some 0, Some stake)]) = Inl (NotSubscribed 0)"
  by (simp add: checkStakeRecord_def js_gt_def)

subsection \<open>The order of the strategies\<close>

lemma queryIndexer_outside_window:
  assumes "activeRewardPeriodInfo api =
             Some \<lparr>index = Some ci, firstBlock = Some fb, length' = Some len\<rparr>"
      and "\<forall>n \<in> set blocks. n < fb - (ci - idx) * len + len
                            \<or> fb - (ci - idx) * len + len + 2000 < n"
  shows "queryIndexerForRewardsBlock (Some blocks) idx api = Inr None"
proof -
  have "find (\<lambda>blockNumber. fb - (ci - idx) * len + len \<le> blockNumber
                 \<and> blockNumber \<le> fb - (ci - idx) * len + len + 2000) blocks = None"
    using assms(2) by (auto simp: find_None_iff)
  then show ?thesis
    using assms(1)
    by (simp add: queryIndexerForRewardsBlock_def js_minus_def js_plus_def js_times_def
          js_le_def)
qed

text \<open>
  Claim C5. When a pinned block hash is given and the events of that block hold no
  \<open>RewardsCalculatedForPeriod\<close> for the period, step 1 enters the pinned-hash strategy
  only and fails, whatever the indexer would answer, and so does the run. When no pinned
  hash is given, an indexer is configured and the indexer is unreachable or
  \<open>queryIndexerForRewardsBlock\<close> returns \<open>null\<close>, step 1 goes on to the chain scan and its
  outcome is that of \<open>findBlockForPeriod\<close>. The query returns \<open>null\<close> when no block number
  of the answer lies between the start of the next period and 2000 blocks after it.
\<close>

theorem strategy_priority:
  "(SPECIFIC_BLOCK_HASH cfg \<noteq> []
      \<and> events_at api (SPECIFIC_BLOCK_HASH cfg) = Some events
      \<and> hasRewardsCalculatedFor events idx = Some False
    \<longrightarrow> findRewardsBlock cfg api reply idx = ([PinnedHash], Inl FailedToVerifyProvidedBlock)
        \<and> (validateInput cfg api = Inr stake \<and> REWARD_PERIOD_INDEX cfg = Some idx
             \<longrightarrow> main cfg api reply = Inl FailedToVerifyProvidedBlock))
   \<and> (SPECIFIC_BLOCK_HASH cfg = [] \<and> INDEXER_URL cfg \<noteq> []
      \<and> (reply = None \<or> queryIndexerForRewardsBlock reply idx api = Inr None)
    \<longrightarrow> findRewardsBlock cfg api reply idx
          = ([Indexer, ChainScan], findBlockForPeriod api idx))
   \<and> (activeRewardPeriodInfo api
          = Some \<lparr>index = Some ci, firstBlock = Some fb, length' = Some len\<rparr>
      \<and> (\<forall>n \<in> set blocks. n < fb - (ci - idx) * len + len
                             \<or> fb - (ci - idx) * len + len + 2000 < n)
    \<longrightarrow> queryIndexerForRewardsBlock (Some blocks) idx api = Inr None)"
proof (intro conjI impI)
  assume a: "SPECIFIC_BLOCK_HASH cfg \<noteq> []
      \<and> events_at api (SPECIFIC_BLOCK_HASH cfg) = Some events
      \<and> hasRewardsCalculatedFor events idx = Some False"
  then show f: "findRewardsBlock cfg api reply idx
                  = ([PinnedHash], Inl FailedToVerifyProvidedBlock)"
    by (simp add: findRewardsBlock_def)
  assume "validateInput cfg api = Inr stake \<and> REWARD_PERIOD_INDEX cfg = Some idx"
  then show "main cfg api reply = Inl FailedToVerifyProvidedBlock"
    using f by (simp add: main_def)
next
  assume "SPECIFIC_BLOCK_HASH cfg = [] \<and> INDEXER_URL cfg \<noteq> []
      \<and> (reply = None \<or> queryIndexerForRewardsBlock reply idx api = Inr None)"
  then show "findRewardsBlock cfg api reply idx
          = ([Indexer, ChainScan], findBlockForPeriod api idx)"
    by (auto simp: findRewardsBlock_def queryIndexerForRewardsBlock_def)
next
  assume "activeRewardPeriodInfo api
          = Some \<lparr>index = Some ci, firstBlock = Some fb, length' = Some len\<rparr>
      \<and> (\<forall>n \<in> set blocks. n < fb - (ci - idx) * len + len
                             \<or> fb - (ci - idx) * len + len + 2000 < n)"
  then show "queryIndexerForRewardsBlock (Some blocks) idx api = Inr None"
    using queryIndexer_outside_window by blast
qed

theorem strategy_priority_witness:
  "SPECIFIC_BLOCK_HASH demo_pinned \<noteq> []
   \<and> events_at demo_client (SPECIFIC_BLOCK_HASH demo_pinned) = Some [demo_earned]
   \<and> hasRewardsCalculatedFor [demo_earned] 5 = Some False
   \<and> validateInput demo_pinned demo_client = Inr 100
   \<and> findRewardsBlock demo_pinned demo_client (Some [65]) 5
        = ([PinnedHash], Inl FailedToVerifyProvidedBlock)
   \<and> main demo_pinned demo_client (Some [65]) = Inl FailedToVerifyProvidedBlock
   \<and> SPECIFIC_BLOCK_HASH demo_indexed = [] \<and> INDEXER_URL demo_indexed \<noteq> []
   \<and> findRewardsBlock demo_indexed demo_client None 5 = ([Indexer, ChainScan], Inr ''0x65'')
   \<and> queryIndexerForRewardsBlock (Some [5000, 12]) 5 demo_client = Inr None
   \<and> findRewardsBlock demo_indexed demo_client (Some [5000, 12]) 5
        = ([Indexer, ChainScan], Inr ''0x65'')"
proof -
  have p1: "SPECIFIC_BLOCK_HASH demo_pinned \<noteq> []
            \<and> events_at demo_client (SPECIFIC_BLOCK_HASH demo_pinned) = Some [demo_earned]
            \<and> hasRewardsCalculatedFor [demo_earned] 5 = Some False"
    by (simp add: demo_pinned_def demo_config_def demo_client_def demo_events_def
          demo_earned_def)
  have p2: "validateInput demo_pinned demo_client = Inr 100
            \<and> REWARD_PERIOD_INDEX demo_pinned = Some 5"
    by code_simp
  have i1: "SPECIFIC_BLOCK_HASH demo_indexed = [] \<and> INDEXER_URL demo_indexed \<noteq> []"
    by (simp add: demo_indexed_def demo_config_def)
  have per: "activeRewardPeriodInfo demo_client
               = Some \<lparr>index = Some 7, firstBlock = Some 70, length' = Some 10\<rparr>"
    by (simp add: demo_client_def demo_period_def)
  have out: "\<forall>n \<in> set [5000, 12 :: int].
               n < 70 - (7 - 5) * 10 + 10 \<or> 70 - (7 - 5) * 10 + 10 + 2000 < n"
    by simp
  have scan: "findBlockForPeriod demo_client 5 = Inr ''0x65''"
    by code_simp
  note T = strategy_priority
  have a: "findRewardsBlock demo_pinned demo_client (Some [65]) 5
             = ([PinnedHash], Inl FailedToVerifyProvidedBlock)
           \<and> main demo_pinned demo_client (Some [65]) = Inl FailedToVerifyProvidedBlock"
    using T [of demo_pinned demo_client "[demo_earned]" 5 "Some [65]" 100] p1 p2 by simp
  have b: "findRewardsBlock demo_indexed demo_client None 5
             = ([Indexer, ChainScan], findBlockForPeriod demo_client 5)"
    using T [of demo_indexed demo_client _ 5 None] i1 by simp
  have c: "queryIndexerForRewardsBlock (Some [5000, 12]) 5 demo_client = Inr None"
    using T [of _ demo_client _ 5 _ _ 7 70 10 "[5000, 12]"] per out by simp
  have d: "findRewardsBlock demo_indexed demo_client (Some [5000, 12]) 5
             = ([Indexer, ChainScan], findBlockForPeriod demo_client 5)"
    using T [of demo_indexed demo_client _ 5 "Some [5000, 12]"] i1 c by simp
  from a b c d p1 p2 i1 scan show ?thesis by simp
qed

subsection \<open>The block of the initial state\<close>

declare walkBack.simps [simp del]

lemma walkBack_step:
  "walkBack api N i l =
     (if i \<le> 50 \<and> 0 \<le> N - i
      then (case readBlock api (N - i) of
              None \<Rightarrow> walkBack api N (i + 1) l
            | Some (h, events) \<Rightarrow>
                if hasEarnedRewardCalculated events then walkBack api N (i + 1) (Some h)
                else (Some h, l))
      else (None, l))"
  by (subst walkBack.simps) (auto simp: readBlock_def searchRange_def split: option.splits)

lemma walkBack_pristine:
  assumes "i0 \<le> i" "i \<le> 50" "0 \<le> N - i"
      and "readBlock api (N - i) = Some (h, events)"
      and "\<not> hasEarnedRewardCalculated events"
      and "\<forall>j. i0 \<le> j \<and> j < i \<longrightarrow> notPristine api (N - j)"
  shows "fst (walkBack api N i0 l) = Some h"
  using assms
proof (induction "nat (i - i0)" arbitrary: i0 l)
  case 0
  then have "i0 = i" by simp
  with 0 show ?case by (subst walkBack_step) simp
next
  case (Suc k)
  then have lt: "i0 < i" by linarith
  with Suc.prems have kw: "notPristine api (N - i0)" by simp
  have IH: "fst (walkBack api N (i0 + 1) l') = Some h" for l'
    using Suc.hyps(1) [of "i0 + 1" l'] Suc.hyps(2) Suc.prems lt by auto
  from lt Suc.prems have rng: "i0 \<le> 50 \<and> 0 \<le> N - i0" by linarith
  show ?case
    using kw rng IH
    by (subst walkBack_step) (auto simp: notPristine_def split: option.splits)
qed

lemma walkBack_unread:
  assumes "\<forall>j. i0 \<le> j \<and> j \<le> 50 \<and> 0 \<le> N - j \<longrightarrow> readBlock api (N - j) = None"
  shows "walkBack api N i0 l = (None, l)"
  using assms
proof (induction "nat (51 - i0)" arbitrary: i0)
  case 0
  then show ?case by (subst walkBack_step) simp
next
  case (Suc k)
  have IH: "walkBack api N (i0 + 1) l = (None, l)"
    using Suc.hyps(1) [of "i0 + 1"] Suc.hyps(2) Suc.prems by auto
  show ?case
    using Suc.prems IH by (subst walkBack_step) (auto split: option.splits)
qed

lemma walkBack_farthest:
  assumes "i0 \<le> k" "k \<le> 50" "0 \<le> N - k"
      and "readBlock api (N - k) = Some (h, events)"
      and "\<forall>j. i0 \<le> j \<and> j \<le> k \<longrightarrow> notPristine api (N - j)"
      and "\<forall>j. k < j \<and> j \<le> 50 \<and> 0 \<le> N - j \<longrightarrow> readBlock api (N - j) = None"
  shows "walkBack api N i0 l = (None, Some h)"
  using assms
proof (induction "nat (k - i0)" arbitrary: i0 l)
  case 0
  then have eq: "i0 = k" by simp
  with 0 have ev: "hasEarnedRewardCalculated events"
    by (auto simp: notPristine_def)
  have rest: "walkBack api N (k + 1) (Some h) = (None, Some h)"
    by (rule walkBack_unread) (use 0 in auto)
  show ?case
    using eq 0 ev rest by (subst walkBack_step) simp
next
  case (Suc n)
  then have lt: "i0 < k" by linarith
  with Suc.prems have kw: "notPristine api (N - i0)" by simp
  have IH: "walkBack api N (i0 + 1) l' = (None, Some h)" for l'
    using Suc.hyps(1) [of "i0 + 1" l'] Suc.hyps(2) Suc.prems lt by auto
  from lt Suc.prems have rng: "i0 \<le> 50 \<and> 0 \<le> N - i0" by linarith
  show ?case
    using kw rng IH
    by (subst walkBack_step) (auto simp: notPristine_def split: option.splits)
qed

lemma demo_getBlockHash:
  "getBlockHash demo_client (Some n) = map_of demo_hashes n"
  "getBlockHash demo_busy (Some n) = map_of demo_hashes n"
  "getBlockHash demo_pruned (Some n) = map_of demo_hashes n"
  by (simp_all add: demo_client_def demo_busy_def demo_pruned_def)

lemma demo_getHeader:
  "getHeader demo_client ''0x65'' = Some 65"
  "getHeader demo_busy ''0x65'' = Some 65"
  "getHeader demo_pruned ''0x65'' = Some 65"
  by (simp_all add: demo_client_def demo_busy_def demo_pruned_def demo_hashes_def)

text \<open>
  Claim C8, as the code has it. Let the distribution block have number \<open>N\<close>; the window
  is the blocks \<open>N - i\<close> for \<open>i\<close> from 1 to 50 that are not below block 0. If block
  \<open>N - i\<close> of the window is read without an \<open>EarnedRewardCalculated\<close> event, and every
  block closer to \<open>N\<close> either could not be read or holds the event, the locator returns
  block \<open>N - i\<close>. If no block of the window is read without the event and block \<open>N - k\<close>
  is the farthest one that could be read, the locator returns block \<open>N - k\<close>. If no block
  of the window could be read at all, which includes a window that is empty because
  \<open>N = 0\<close>, the locator asks the node for the hash of block \<open>N - 1\<close>: it returns that hash
  when the node gives one and fails when the node gives none.
\<close>

theorem findBlockBeforeRewardsCalculated_result:
  assumes "getHeader api distributionHash = Some N"
  shows "(\<forall>i h events.
            1 \<le> i \<and> i \<le> 50 \<and> 0 \<le> N - i
            \<and> readBlock api (N - i) = Some (h, events)
            \<and> \<not> hasEarnedRewardCalculated events
            \<and> (\<forall>j. 1 \<le> j \<and> j < i \<longrightarrow> notPristine api (N - j))
            \<longrightarrow> findBlockBeforeRewardsCalculated api distributionHash = Inr h)
       \<and> (\<forall>k h events.
            1 \<le> k \<and> k \<le> 50 \<and> 0 \<le> N - k
            \<and> readBlock api (N - k) = Some (h, events)
            \<and> (\<forall>j. 1 \<le> j \<and> j \<le> k \<longrightarrow> notPristine api (N - j))
            \<and> (\<forall>j. k < j \<and> j \<le> 50 \<and> 0 \<le> N - j \<longrightarrow> readBlock api (N - j) = None)
            \<longrightarrow> findBlockBeforeRewardsCalculated api distributionHash = Inr h)
       \<and> ((\<forall>j. 1 \<le> j \<and> j \<le> 50 \<and> 0 \<le> N - j \<longrightarrow> readBlock api (N - j) = None)
            \<longrightarrow> findBlockBeforeRewardsCalculated api distributionHash
                  = (case getBlockHash api (Some (N - 1)) of
                       None \<Rightarrow> Inl FailedToFindInitialBlock
                     | Some blockBeforeHash \<Rightarrow> Inr blockBeforeHash))"
proof (intro conjI allI impI)
  fix i h events
  assume a: "1 \<le> i \<and> i \<le> 50 \<and> 0 \<le> N - i
            \<and> readBlock api (N - i) = Some (h, events)
            \<and> \<not> hasEarnedRewardCalculated events
            \<and> (\<forall>j. 1 \<le> j \<and> j < i \<longrightarrow> notPristine api (N - j))"
  then have "fst (walkBack api N 1 None) = Some h"
    by (intro walkBack_pristine [where i = i and events = events]) auto
  then show "findBlockBeforeRewardsCalculated api distributionHash = Inr h"
    using assms
    by (cases "walkBack api N 1 None") (simp add: findBlockBeforeRewardsCalculated_def)
next
  fix k h events
  assume a: "1 \<le> k \<and> k \<le> 50 \<and> 0 \<le> N - k
            \<and> readBlock api (N - k) = Some (h, events)
            \<and> (\<forall>j. 1 \<le> j \<and> j \<le> k \<longrightarrow> notPristine api (N - j))
            \<and> (\<forall>j. k < j \<and> j \<le> 50 \<and> 0 \<le> N - j \<longrightarrow> readBlock api (N - j) = None)"
  then have "walkBack api N 1 None = (None, Some h)"
    by (intro walkBack_farthest [where k = k and events = events]) auto
  then show "findBlockBeforeRewardsCalculated api distributionHash = Inr h"
    using assms by (simp add: findBlockBeforeRewardsCalculated_def)
next
  assume a: "\<forall>j. 1 \<le> j \<and> j \<le> 50 \<and> 0 \<le> N - j \<longrightarrow> readBlock api (N - j) = None"
  then have "walkBack api N 1 None = (None, None)"
    by (intro walkBack_unread) auto
  then show "findBlockBeforeRewardsCalculated api distributionHash
               = (case getBlockHash api (Some (N - 1)) of
                    None \<Rightarrow> Inl FailedToFindInitialBlock
                  | Some blockBeforeHash \<Rightarrow> Inr blockBeforeHash)"
    using assms by (simp add: findBlockBeforeRewardsCalculated_def)
qed

theorem findBlockBeforeRewardsCalculated_result_witness:
  "getHeader demo_client ''0x65'' = Some 65
   \<and> readBlock demo_client (65 - 3) = Some (''0x62'', [])
   \<and> findBlockBeforeRewardsCalculated demo_client ''0x65'' = Inr ''0x62''
   \<and> readBlock demo_busy (65 - 16) = Some (''0x49'', [demo_earned])
   \<and> findBlockBeforeRewardsCalculated demo_busy ''0x65'' = Inr ''0x49''
   \<and> getBlockHash demo_pruned (Some (65 - 1)) = Some ''0x64''
   \<and> findBlockBeforeRewardsCalculated demo_pruned ''0x65'' = Inr ''0x64''
   \<and> getHeader demo_genesis ''0x65'' = Some 0
   \<and> getBlockHash demo_genesis (Some (0 - 1)) = None
   \<and> findBlockBeforeRewardsCalculated demo_genesis ''0x65'' = Inl FailedToFindInitialBlock"
proof -
  have r62: "readBlock demo_client (65 - 3) = Some (''0x62'', [])"
    by (simp add: readBlock_def demo_client_def demo_hashes_def demo_events_def)
  have np: "\<forall>j::int. 1 \<le> j \<and> j < 3 \<longrightarrow> notPristine demo_client (65 - j)"
  proof (intro allI impI)
    fix j :: int
    assume "1 \<le> j \<and> j < 3"
    then have "j = 1 \<or> j = 2" by arith
    then show "notPristine demo_client (65 - j)"
      by (auto simp: notPristine_def readBlock_def demo_client_def demo_hashes_def
            demo_events_def hasEarnedRewardCalculated_def demo_earned_def)
  qed
  have one: "findBlockBeforeRewardsCalculated demo_client ''0x65'' = Inr ''0x62''"
    using findBlockBeforeRewardsCalculated_result
            [OF demo_getHeader(1), THEN conjunct1, rule_format, of 3 "''0x62''" "[]"] r62 np
    by (simp add: hasEarnedRewardCalculated_def)
  have r49: "readBlock demo_busy (65 - 16) = Some (''0x49'', [demo_earned])"
    by (simp add: readBlock_def demo_busy_def demo_client_def demo_hashes_def)
  have busy: "\<forall>j::int. 1 \<le> j \<and> j \<le> 16 \<longrightarrow> notPristine demo_busy (65 - j)"
    by (auto simp: notPristine_def readBlock_def demo_busy_def demo_client_def
          hasEarnedRewardCalculated_def demo_earned_def split: option.splits)
  have beyond: "\<forall>j::int. 16 < j \<and> j \<le> 50 \<and> 0 \<le> 65 - j
                  \<longrightarrow> readBlock demo_busy (65 - j) = None"
    by (auto simp: readBlock_def demo_getBlockHash demo_hashes_def)
  have two: "findBlockBeforeRewardsCalculated demo_busy ''0x65'' = Inr ''0x49''"
    using findBlockBeforeRewardsCalculated_result
            [OF demo_getHeader(2), THEN conjunct2, THEN conjunct1, rule_format,
             of 16 "''0x49''" "[demo_earned]"] r49 busy beyond
    by simp
  have pruned: "\<forall>j::int. 1 \<le> j \<and> j \<le> 50 \<and> 0 \<le> 65 - j
                  \<longrightarrow> readBlock demo_pruned (65 - j) = None"
    by (auto simp: readBlock_def demo_getBlockHash demo_hashes_def demo_pruned_def
             split: option.splits if_splits)
  have b64: "getBlockHash demo_pruned (Some (65 - 1)) = Some ''0x64''"
    by (simp add: demo_getBlockHash demo_hashes_def)
  have three: "findBlockBeforeRewardsCalculated demo_pruned ''0x65'' = Inr ''0x64''"
    using findBlockBeforeRewardsCalculated_result
            [OF demo_getHeader(3), THEN conjunct2, THEN conjunct2, rule_format]
          pruned b64
    by simp
  have g0: "getHeader demo_genesis ''0x65'' = Some 0"
    by (simp add: demo_genesis_def)
  have empty: "\<forall>j::int. 1 \<le> j \<and> j \<le> 50 \<and> 0 \<le> 0 - j
                  \<longrightarrow> readBlock demo_genesis (0 - j) = None"
    by auto
  have none: "getBlockHash demo_genesis (Some (0 - 1)) = None"
    by (simp add: demo_genesis_def demo_client_def demo_hashes_def)
  have four: "findBlockBeforeRewardsCalculated demo_genesis ''0x65''
                = Inl FailedToFindInitialBlock"
    using findBlockBeforeRewardsCalculated_result
            [OF g0, THEN conjunct2, THEN conjunct2, rule_format]
          empty none
    by simp
  from one two three four r62 r49 b64 g0 none demo_getHeader(1) show ?thesis by simp
qed

text \<open>
  Claim C8 as stated fails in the case it names, the window that underflows below
  block 0. When the header of the distribution block carries the number 0 the loop
  examines no block, the locator asks for block -1, the node has no such block, and
  the locator fails instead of returning a block.
\<close>

theorem findBlockBeforeRewardsCalculated_underflow_fails:
  "getHeader demo_genesis ''0x65'' = Some 0
   \<and> walkBack demo_genesis 0 1 None = (None, None)
   \<and> getBlockHash demo_genesis (Some (0 - 1)) = None
   \<and> findBlockBeforeRewardsCalculated demo_genesis ''0x65'' = Inl FailedToFindInitialBlock"
  by code_simp

subsection \<open>Doubles\<close>


lemma float_exponent_upper:
  assumes "0 < x"
  shows "x < 2 powi (float_exponent x + 1)"
proof -
  obtain p q where pq: "quotient_of x = (p, q)" by (cases "quotient_of x")
  then have q: "0 < q" using quotient_of_denom_pos by blast
  have x: "x = of_int p / of_int q" using pq by (rule quotient_of_div)
  with assms q have p: "0 < p" by (simp add: zero_less_divide_iff)
  define bp where "bp = bitlen p"
  define bq where "bq = bitlen q"
  have bp1: "1 \<le> bp" and bq1: "1 \<le> bq"
    using p q by (auto simp: bp_def bq_def bitlen_alt_def)
  have up: "p < (2::int) ^ nat bp" using bitlen_bounds [OF p] by (simp add: bp_def)
  have lq: "(2::int) ^ nat (bq - 1) \<le> q" using bitlen_bounds [OF q] by (simp add: bq_def)
  have up': "(of_int p :: rat) < 2 ^ nat bp"
    using up by (metis of_int_less_iff of_int_numeral of_int_power)
  have lq': "(2::rat) ^ nat (bq - 1) \<le> of_int q"
    using lq by (metis of_int_le_iff of_int_numeral of_int_power)
  have e1: "(2::rat) powi bp = 2 ^ nat bp"
    using bp1 by (simp add: power_int_def)
  have e2: "(2::rat) powi (bq - 1) = 2 ^ nat (bq - 1)"
    using bq1 by (simp add: power_int_def)
  have "of_int p / of_int q < (2::rat) ^ nat bp / of_int q"
    using up' q by (simp add: divide_strict_right_mono)
  also have "\<dots> \<le> 2 ^ nat bp / 2 ^ nat (bq - 1)"
    using lq' by (simp add: frac_le)
  also have "\<dots> = 2 powi bp / 2 powi (bq - 1)"
    by (simp only: e1 e2)
  also have "\<dots> = 2 powi (bp - (bq - 1))"
    by (rule power_int_diff [symmetric]) simp
  also have "\<dots> = 2 powi (bp - bq + 1)"
    by (rule arg_cong [where f = "\<lambda>e. 2 powi e"]) linarith
  finally have high: "x < 2 powi (bp - bq + 1)" using x by simp
  show ?thesis
    using high pq by (auto simp: float_exponent_def bp_def bq_def Let_def)
qed



subsection \<open>The SLA check\<close>

lemma queryHistoricalState_Inr:
  assumes "queryHistoricalState api idx ih bh = Inr s"
  shows "\<exists>g. solutionsGroups_at api (if ih \<noteq> [] then ih else bh) = Some g
             \<and> slaPercentage s = slaVotingThreshold g"
    and "earnedRewards_at api bh = Some (finalRewards s)"
    and "ih \<noteq> [] \<Longrightarrow>
           \<exists>a b. earnedRewards_at api ih = Some (a, b) \<and> initialRewards s = RewardsTuple a b"
  using assms
  by (auto simp: queryHistoricalState_def Let_def getSlaThreshold_def getRewardsForAddress_def
           split: sum.splits option.splits if_splits prod.splits)


lemma demo_main:
  "main demo_config demo_client None = analyse demo_period_info demo_group demo_snapshot"
  "main demo_config demo_idle None = analyse demo_period_info demo_group demo_idle_snapshot"
  by code_simp+







text \<open>
  Claim C3. With 0 eligible rounds the vote ratio and the verdict stay undefined; the
  analysis still returns its report, and the two lines of the report read N/A, not a
  ratio of zero.
\<close>

theorem zero_eligible_rounds_not_available:
  "deriveSlaCheck 0 voted sla = (None, None)
   \<and> (eligibleRounds s = 0 \<and> initialRewards s = RewardsTuple a b \<longrightarrow>
        (\<exists>r. analyse periodInfo groupInfo s = Inr r
            \<and> report_voteRatio r = VoteRatioNA
            \<and> report_meetsSla r = MeetsSlaNA
            \<and> report_voteRatio r \<noteq> VoteRatioFixed (toFixed2 0)))"
  by (simp add: deriveSlaCheck_def analyse_def periodRewards_def voteRatioLine_def
        meetsSlaLine_def)

theorem zero_eligible_rounds_not_available_witness:
  "queryHistoricalState demo_idle 5 ''0x62'' ''0x65'' = Inr demo_idle_snapshot
   \<and> eligibleRounds demo_idle_snapshot = 0
   \<and> initialRewards demo_idle_snapshot
        = RewardsTuple 7982644892450463358 30299138028873089534
   \<and> (\<exists>r. main demo_config demo_idle None = Inr r
          \<and> report_voteRatio r = VoteRatioNA \<and> report_meetsSla r = MeetsSlaNA)"
proof -
  have q: "queryHistoricalState demo_idle 5 ''0x62'' ''0x65'' = Inr demo_idle_snapshot"
    by (simp add: queryHistoricalState_def getEligibleRounds_def getVotesForAddress_def
          getSlaThreshold_def getRewardsForAddress_def demo_idle_def demo_client_def
          demo_group_def demo_idle_snapshot_def demo_snapshot_def)
  have s: "eligibleRounds demo_idle_snapshot = 0
           \<and> initialRewards demo_idle_snapshot
                = RewardsTuple 7982644892450463358 30299138028873089534"
    by (simp add: demo_idle_snapshot_def demo_snapshot_def)
  from zero_eligible_rounds_not_available
         [of 61 "Some 60" demo_idle_snapshot 7982644892450463358 30299138028873089534
            demo_period_info demo_group]
  show ?thesis using q s demo_main(2) by auto
qed

subsection \<open>Missing reward totals\<close>

lemma main_Inr:
  assumes "main cfg api reply = Inr r"
  shows "\<exists>idx bh ih s pinfo ginfo.
           snd (findRewardsBlock cfg api reply idx) = Inr bh
           \<and> findBlockBeforeRewardsCalculated api bh = Inr ih
           \<and> queryHistoricalState api idx ih bh = Inr s
           \<and> analyse pinfo ginfo s = Inr r"
  using assms by (auto simp: main_def split: sum.splits option.splits) blast

lemma analyse_Inr:
  assumes "analyse pinfo ginfo s = Inr r"
  shows "\<exists>a b. initialRewards s = RewardsTuple a b"
    and "report_initialRewards r = initialRewards s"
    and "report_finalRewards r = finalRewards s"
  using assms
  by (auto simp: analyse_def periodRewards_def
           split: sum.splits prod.splits rewards_value.splits)

text \<open>
  Claim C9, as the code has it. A read of the reward totals that gives no pair of
  amounts ends the run with an error wherever it happens: at the initial block, for
  every block hash the locator returns, and at the distribution block. Nothing is put
  in the place of a missing pair: the initial and final totals of every report are the
  pairs stored at the block the locator returned and at the distribution block.
\<close>

theorem missing_rewards_abort:
  "(initialBlockHash \<noteq> [] \<and> earnedRewards_at api initialBlockHash = None \<longrightarrow>
      (\<exists>e. queryHistoricalState api idx initialBlockHash blockHash = Inl e))
   \<and> (earnedRewards_at api blockHash = None \<longrightarrow>
      (\<exists>e. queryHistoricalState api idx initialBlockHash blockHash = Inl e))
   \<and> (main cfg api reply = Inr r \<longrightarrow>
      (\<exists>blockHash initialBlockHash subscription voting.
          findBlockBeforeRewardsCalculated api blockHash = Inr initialBlockHash
          \<and> earnedRewards_at api initialBlockHash = Some (subscription, voting)
          \<and> report_initialRewards r = RewardsTuple subscription voting
          \<and> earnedRewards_at api blockHash = Some (report_finalRewards r)))"
proof (intro conjI impI)
  assume "initialBlockHash \<noteq> [] \<and> earnedRewards_at api initialBlockHash = None"
  then show "\<exists>e. queryHistoricalState api idx initialBlockHash blockHash = Inl e"
    by (auto simp: queryHistoricalState_def getRewardsForAddress_def split: sum.splits)
next
  assume "earnedRewards_at api blockHash = None"
  then show "\<exists>e. queryHistoricalState api idx initialBlockHash blockHash = Inl e"
    by (auto simp: queryHistoricalState_def getRewardsForAddress_def Let_def
             split: sum.splits if_splits)
next
  assume "main cfg api reply = Inr r"
  then obtain idx bh ih s pinfo ginfo where
    f: "findBlockBeforeRewardsCalculated api bh = Inr ih"
    and q: "queryHistoricalState api idx ih bh = Inr s"
    and a: "analyse pinfo ginfo s = Inr r"
    using main_Inr by blast
  from analyse_Inr [OF a] obtain x y where
    t: "initialRewards s = RewardsTuple x y" "report_initialRewards r = initialRewards s"
       "report_finalRewards r = finalRewards s"
    by blast
  have ne: "ih \<noteq> []"
  proof
    assume "ih = []"
    with q have "initialRewards s = NumberZero"
      by (auto simp: queryHistoricalState_def Let_def split: sum.splits)
    with t show False by simp
  qed
  from queryHistoricalState_Inr(3) [OF q ne] obtain a' b' where
    i: "earnedRewards_at api ih = Some (a', b')" "initialRewards s = RewardsTuple a' b'"
    by blast
  from queryHistoricalState_Inr(2) [OF q]
  have fin: "earnedRewards_at api bh = Some (finalRewards s)" .
  show "\<exists>blockHash initialBlockHash subscription voting.
          findBlockBeforeRewardsCalculated api blockHash = Inr initialBlockHash
          \<and> earnedRewards_at api initialBlockHash = Some (subscription, voting)
          \<and> report_initialRewards r = RewardsTuple subscription voting
          \<and> earnedRewards_at api blockHash = Some (report_finalRewards r)"
    using f i fin t by auto
qed

theorem missing_rewards_abort_witness:
  "''0x64'' \<noteq> [] \<and> earnedRewards_at demo_pruned ''0x64'' = None
   \<and> queryHistoricalState demo_pruned 5 ''0x64'' ''0x65'' = Inl FailedToGetInitialRewards
   \<and> earnedRewards_at demo_pruned ''0x62'' = None
   \<and> queryHistoricalState demo_pruned 5 ''0x65'' ''0x62'' = Inl FailedToGetFinalRewards
   \<and> (\<exists>r. main demo_config demo_client None = Inr r
          \<and> findBlockBeforeRewardsCalculated demo_client ''0x65'' = Inr ''0x62''
          \<and> earnedRewards_at demo_client ''0x62''
               = Some (7982644892450463358, 30299138028873089534)
          \<and> report_initialRewards r = RewardsTuple 7982644892450463358 30299138028873089534
          \<and> earnedRewards_at demo_client ''0x65'' = Some (report_finalRewards r))"
proof -
  have h1: "''0x64'' \<noteq> [] \<and> earnedRewards_at demo_pruned ''0x64'' = None"
    by (simp add: demo_pruned_def)
  have h2: "earnedRewards_at demo_pruned ''0x62'' = None"
    by (simp add: demo_pruned_def)
  note T = missing_rewards_abort
  from T [of "''0x64''" demo_pruned 5 "''0x65''", THEN conjunct1] h1
  obtain e1 where e1: "queryHistoricalState demo_pruned 5 ''0x64'' ''0x65'' = Inl e1" by blast
  have v1: "queryHistoricalState demo_pruned 5 ''0x64'' ''0x65''
              = Inl FailedToGetInitialRewards"
    by code_simp
  from T [of "''0x65''" demo_pruned 5 "''0x62''", THEN conjunct2, THEN conjunct1] h2
  obtain e2 where e2: "queryHistoricalState demo_pruned 5 ''0x65'' ''0x62'' = Inl e2" by blast
  have v2: "queryHistoricalState demo_pruned 5 ''0x65'' ''0x62'' = Inl FailedToGetFinalRewards"
    by code_simp
  have "\<exists>r. analyse demo_period_info demo_group demo_snapshot = Inr r
           \<and> report_initialRewards r = RewardsTuple 7982644892450463358 30299138028873089534
           \<and> report_finalRewards r = (8206437276591532332, 31834395275802910556)"
    by (simp add: analyse_def periodRewards_def demo_snapshot_def split: prod.splits)
  then obtain r where r: "main demo_config demo_client None = Inr r"
     "report_initialRewards r = RewardsTuple 7982644892450463358 30299138028873089534"
     "report_finalRewards r = (8206437276591532332, 31834395275802910556)"
    using demo_main(1) by auto
  from T [of _ demo_client _ _ demo_config None r, THEN conjunct2, THEN conjunct2] r(1)
  have stored: "\<exists>blockHash initialBlockHash subscription voting.
          findBlockBeforeRewardsCalculated demo_client blockHash = Inr initialBlockHash
          \<and> earnedRewards_at demo_client initialBlockHash = Some (subscription, voting)
          \<and> report_initialRewards r = RewardsTuple subscription voting
          \<and> earnedRewards_at demo_client blockHash = Some (report_finalRewards r)"
    by blast
  have c: "earnedRewards_at demo_client ''0x62''
             = Some (7982644892450463358, 30299138028873089534)
           \<and> earnedRewards_at demo_client ''0x65''
             = Some (8206437276591532332, 31834395275802910556)"
    by (simp add: demo_client_def)
  have l: "findBlockBeforeRewardsCalculated demo_client ''0x65'' = Inr ''0x62''"
    by code_simp
  from h1 h2 v1 v2 r c l e1 e2 stored show ?thesis by auto
qed

text \<open>
  Claim C9 as stated fails. On the pruned node no block before block 65 can be read,
  so the locator ends with both of its variables empty and falls back to block 64; no
  rewards are stored for that block, and the run ends with the error of the initial
  rewards instead of going on with the pair (0, 0).
\<close>

theorem last_resort_block_missing_rewards_aborts:
  "getHeader demo_pruned ''0x65'' = Some 65
   \<and> walkBack demo_pruned 65 1 None = (None, None)
   \<and> findBlockBeforeRewardsCalculated demo_pruned ''0x65'' = Inr ''0x64''
   \<and> earnedRewards_at demo_pruned ''0x64'' = None
   \<and> main demo_config demo_pruned None = Inl FailedToGetInitialRewards"
  by code_simp

end
